theory Spec2Isabelle
  imports Main "HOL-Library.Char_ord" "HOL-Library.List_Lexorder" "HOL-Library.Option_ord"
begin

section \<open>Values and errors\<close>

text \<open>
  The values a decoded JSON request body or a marshmallow-loaded payload can hold for a
  column of \<open>Interaction\<close>: \<open>None\<close>, an integer, a string, a datetime (seconds).
\<close>

datatype pyval = PNone | PInt int | PStr string | PDateTime int

text \<open>
  The exceptions of the modelled code; a \<open>ValueError\<close> carries its message.
  \<open>DatabaseError\<close> stands for the SQLAlchemy
  exception a statement, flush or commit raises (type mismatch, NOT NULL, primary key,
  negative OFFSET/LIMIT, ORDER BY on something that is no column); \<open>AttributeError\<close>
  for the assignment of a plain value to an ORM relationship attribute, \<open>UncaughtError\<close>
  for an exception of a library that no handler of the modelled code catches.
\<close>

datatype error =
    ResourceNotFoundError
  | ResourceConflictError
  | ValidationError
  | ValueError string
  | ZeroDivisionError
  | AttributeError
  | DatabaseError
  | BadRequest
  | Unauthorized
  | Forbidden
  | UncaughtError

text \<open>\<open>str(n)\<close> for an integer, and the substring test \<open>sub in s\<close>.\<close>

function show_nat :: "nat \<Rightarrow> string" where
  "show_nat n =
     (if n < 10 then [char_of (48 + n)] else show_nat (n div 10) @ [char_of (48 + n mod 10)])"
  by pat_completeness auto
termination
  by (relation "measure id") auto

definition show_int :: "int \<Rightarrow> string" where
  "show_int i = (if i < 0 then ''-'' @ show_nat (nat (- i)) else show_nat (nat i))"




section \<open>Interactions (interactions/models.py, interactions/repositories.py)\<close>

text \<open>A row of the table \<open>interactions\<close>; \<open>itype\<close> is the column \<open>type\<close>.\<close>

record interaction =
  interaction_id :: int
  site_id :: int
  title :: string
  itype :: string
  lead :: string
  start_datetime :: int
  timezone :: string
  end_datetime :: "int option"
  location :: "string option"
  description :: "string option"
  "notes" :: "string option"
  created_by :: int
  created_at :: int
  updated_by :: "int option"
  updated_at :: "int option"

text \<open>
  The table is the list of its rows. \<open>get_by_id\<close> chains the two filters
  \<open>interaction_id == interaction_id\<close> and \<open>site_id.in_(allowed_site_ids)\<close> and takes
  \<open>.first()\<close>; no row raises \<open>ResourceNotFoundError\<close>.
\<close>

definition get_by_id :: "interaction list \<Rightarrow> int \<Rightarrow> int list \<Rightarrow> error + interaction" where
  "get_by_id tbl iid allowed_site_ids =
     (case find (\<lambda>i. interaction_id i = iid \<and> site_id i \<in> set allowed_site_ids) tbl of
        None \<Rightarrow> Inl ResourceNotFoundError
      | Some i \<Rightarrow> Inr i)"

text \<open>
  \<open>delete\<close>: \<open>get_by_id\<close> outside the \<open>try\<close>, then \<open>db.session.delete\<close> and commit, which
  removes the row with the object's primary key; returns \<open>True\<close>.
\<close>

definition delete :: "interaction list \<Rightarrow> int \<Rightarrow> int list \<Rightarrow> (error + bool) \<times> interaction list" where
  "delete tbl iid allowed_site_ids =
     (case get_by_id tbl iid allowed_site_ids of
        Inl e \<Rightarrow> (Inl e, tbl)
      | Inr i \<Rightarrow> (Inr True, filter (\<lambda>r. interaction_id r \<noteq> interaction_id i) tbl))"

subsection \<open>The loaded object and \<open>setattr\<close>\<close>

text \<open>
  A loaded \<open>Interaction\<close> object is dynamically typed: its attributes are a dictionary
  from names to values, and the column types are only enforced when the session flushes.
  \<open>column_names\<close>, \<open>relationship_names\<close> and \<open>method_names\<close> are the attributes the
  class declares in interactions/models.py (with the \<open>creator\<close>/\<open>updater\<close> relationships);
  the attributes inherited from \<open>db.Model\<close> are not modelled.
\<close>

type_synonym pyobject = "string \<rightharpoonup> pyval"

definition column_names :: "string list" where
  "column_names =
     [''interaction_id'', ''site_id'', ''title'', ''type'', ''lead'', ''start_datetime'',
      ''timezone'', ''end_datetime'', ''location'', ''description'', ''notes'',
      ''created_by'', ''created_at'', ''updated_by'', ''updated_at'']"

definition relationship_names :: "string list" where
  "relationship_names = [''site'', ''creator'', ''updater'']"

definition method_names :: "string list" where
  "method_names = [''update'', ''to_dict'']"

definition hasattr :: "string \<Rightarrow> bool" where
  "hasattr key \<longleftrightarrow> key \<in> set (column_names @ relationship_names @ method_names)"

definition opt_val :: "('a \<Rightarrow> pyval) \<Rightarrow> 'a option \<Rightarrow> pyval" where
  "opt_val f x = (case x of None \<Rightarrow> PNone | Some v \<Rightarrow> f v)"

text \<open>The attributes of an object freshly loaded from a row.\<close>

definition load :: "interaction \<Rightarrow> pyobject" where
  "load i =
     [''interaction_id'' \<mapsto> PInt (interaction_id i),
      ''site_id'' \<mapsto> PInt (site_id i),
      ''title'' \<mapsto> PStr (title i),
      ''type'' \<mapsto> PStr (itype i),
      ''lead'' \<mapsto> PStr (lead i),
      ''start_datetime'' \<mapsto> PDateTime (start_datetime i),
      ''timezone'' \<mapsto> PStr (timezone i),
      ''end_datetime'' \<mapsto> opt_val PDateTime (end_datetime i),
      ''location'' \<mapsto> opt_val PStr (location i),
      ''description'' \<mapsto> opt_val PStr (description i),
      ''notes'' \<mapsto> opt_val PStr (notes i),
      ''created_by'' \<mapsto> PInt (created_by i),
      ''created_at'' \<mapsto> PDateTime (created_at i),
      ''updated_by'' \<mapsto> opt_val PInt (updated_by i),
      ''updated_at'' \<mapsto> opt_val PDateTime (updated_at i)]"

text \<open>
  \<open>setattr(interaction, key, value)\<close>: a column or method name takes any value; a
  relationship attribute takes \<open>None\<close>, and raises for a value that is no mapped object.
\<close>

definition setattr :: "pyobject \<Rightarrow> string \<Rightarrow> pyval \<Rightarrow> error + pyobject" where
  "setattr obj key v =
     (if key \<in> set relationship_names \<and> v \<noteq> PNone then Inl AttributeError
      else Inr (obj(key \<mapsto> v)))"

text \<open>The loop \<open>for key, value in interaction_data.items()\<close> of \<open>update\<close>.\<close>

fun set_items :: "pyobject \<Rightarrow> (string \<times> pyval) list \<Rightarrow> error + pyobject" where
  "set_items obj [] = Inr obj"
| "set_items obj ((key, v) # rest) =
     (if hasattr key then
        (case setattr obj key v of Inl e \<Rightarrow> Inl e | Inr obj' \<Rightarrow> set_items obj' rest)
      else set_items obj rest)"

subsection \<open>Flush and commit\<close>

text \<open>
  At flush a relationship set to \<open>None\<close> clears its foreign key column
  (\<open>site\<close> \<open>\<rightarrow>\<close> \<open>site_id\<close>, \<open>creator\<close> \<open>\<rightarrow>\<close> \<open>created_by\<close>, \<open>updater\<close> \<open>\<rightarrow>\<close> \<open>updated_by\<close>).
\<close>

definition sync_relationships :: "pyobject \<Rightarrow> pyobject" where
  "sync_relationships obj =
     (let o1 = (if obj ''site'' = Some PNone then obj(''site_id'' \<mapsto> PNone) else obj);
          o2 = (if obj ''creator'' = Some PNone then o1(''created_by'' \<mapsto> PNone) else o1)
      in (if obj ''updater'' = Some PNone then o2(''updated_by'' \<mapsto> PNone) else o2))"

text \<open>Column typing: a value of the wrong type, or NULL in a NOT NULL column, fails.\<close>

definition int_col :: "pyobject \<Rightarrow> string \<Rightarrow> error + int" where
  "int_col obj k = (case obj k of Some (PInt n) \<Rightarrow> Inr n | _ \<Rightarrow> Inl DatabaseError)"

definition str_col :: "pyobject \<Rightarrow> string \<Rightarrow> error + string" where
  "str_col obj k = (case obj k of Some (PStr s) \<Rightarrow> Inr s | _ \<Rightarrow> Inl DatabaseError)"

definition dt_col :: "pyobject \<Rightarrow> string \<Rightarrow> error + int" where
  "dt_col obj k = (case obj k of Some (PDateTime t) \<Rightarrow> Inr t | _ \<Rightarrow> Inl DatabaseError)"

definition int_null_col :: "pyobject \<Rightarrow> string \<Rightarrow> error + int option" where
  "int_null_col obj k =
     (case obj k of Some (PInt n) \<Rightarrow> Inr (Some n) | Some PNone \<Rightarrow> Inr None
      | _ \<Rightarrow> Inl DatabaseError)"

definition str_null_col :: "pyobject \<Rightarrow> string \<Rightarrow> error + string option" where
  "str_null_col obj k =
     (case obj k of Some (PStr s) \<Rightarrow> Inr (Some s) | Some PNone \<Rightarrow> Inr None
      | _ \<Rightarrow> Inl DatabaseError)"

definition dt_null_col :: "pyobject \<Rightarrow> string \<Rightarrow> error + int option" where
  "dt_null_col obj k =
     (case obj k of Some (PDateTime t) \<Rightarrow> Inr (Some t) | Some PNone \<Rightarrow> Inr None
      | _ \<Rightarrow> Inl DatabaseError)"

definition bind :: "error + 'a \<Rightarrow> ('a \<Rightarrow> error + 'b) \<Rightarrow> error + 'b" where
  "bind x f = (case x of Inl e \<Rightarrow> Inl e | Inr v \<Rightarrow> f v)"

text \<open>The row the flush writes for an object, or the error of the first bad column.\<close>

definition to_row :: "pyobject \<Rightarrow> error + interaction" where
  "to_row obj =
     bind (int_col obj ''interaction_id'') (\<lambda>c1.
     bind (int_col obj ''site_id'') (\<lambda>c2.
     bind (str_col obj ''title'') (\<lambda>c3.
     bind (str_col obj ''type'') (\<lambda>c4.
     bind (str_col obj ''lead'') (\<lambda>c5.
     bind (dt_col obj ''start_datetime'') (\<lambda>c6.
     bind (str_col obj ''timezone'') (\<lambda>c7.
     bind (dt_null_col obj ''end_datetime'') (\<lambda>c8.
     bind (str_null_col obj ''location'') (\<lambda>c9.
     bind (str_null_col obj ''description'') (\<lambda>c10.
     bind (str_null_col obj ''notes'') (\<lambda>c11.
     bind (int_col obj ''created_by'') (\<lambda>c12.
     bind (dt_col obj ''created_at'') (\<lambda>c13.
     bind (int_null_col obj ''updated_by'') (\<lambda>c14.
     bind (dt_null_col obj ''updated_at'') (\<lambda>c15.
       Inr \<lparr>interaction_id = c1, site_id = c2, title = c3, itype = c4, lead = c5,
            start_datetime = c6, timezone = c7, end_datetime = c8, location = c9,
            description = c10, notes = c11, created_by = c12, created_at = c13,
            updated_by = c14, updated_at = c15\<rparr>)))))))))))))))"

text \<open>
  \<open>db.session.commit()\<close> for the changed object loaded from the row with primary key
  \<open>pk\<close>: the relationship sync, the column typing, the primary key constraint, then the
  row is replaced. String lengths and foreign keys are not checked.
\<close>

definition commit_update :: "interaction list \<Rightarrow> int \<Rightarrow> pyobject \<Rightarrow> error + interaction \<times> interaction list" where
  "commit_update tbl pk obj =
     bind (to_row (sync_relationships obj)) (\<lambda>row.
       if interaction_id row \<noteq> pk \<and> interaction_id row \<in> interaction_id ` set tbl
       then Inl DatabaseError
       else Inr (row, map (\<lambda>r. if interaction_id r = pk then row else r) tbl))"

text \<open>
  \<open>update\<close>: \<open>get_by_id\<close> outside the \<open>try\<close>; inside it the \<open>setattr\<close> loop, the audit
  stamp (\<open>updated_by\<close>, \<open>updated_at = get_current_datetime()\<close>, here \<open>now\<close>) and the
  commit; any exception rolls back (the table is unchanged) and is raised again.
\<close>

definition update :: "interaction list \<Rightarrow> int \<Rightarrow> (string \<times> pyval) list \<Rightarrow> int list \<Rightarrow> int \<Rightarrow> int \<Rightarrow>
    (error + interaction) \<times> interaction list" where
  "update tbl iid interaction_data allowed_site_ids user_id now =
     (case get_by_id tbl iid allowed_site_ids of
        Inl e \<Rightarrow> (Inl e, tbl)
      | Inr i \<Rightarrow>
          (case bind (set_items (load i) interaction_data) (\<lambda>obj.
                  commit_update tbl (interaction_id i)
                    (obj(''updated_by'' \<mapsto> PInt user_id, ''updated_at'' \<mapsto> PDateTime now))) of
             Inl e \<Rightarrow> (Inl e, tbl)
           | Inr (row, tbl') \<Rightarrow> (Inr row, tbl')))"

subsection \<open>The fields InteractionUpdateSchema declares (interactions/schemas.py)\<close>

definition InteractionUpdateSchema_fields :: "string list" where
  "InteractionUpdateSchema_fields =
     [''title'', ''type'', ''lead'', ''start_datetime'', ''timezone'', ''end_datetime'',
      ''location'', ''description'', ''notes'']"

section \<open>Pagination (utils/validators.py, utils/pagination.py)\<close>







subsection \<open>\<open>InteractionRepository.get_all\<close>\<close>




section \<open>Users, sites and memberships (auth/models.py, sites/models.py)\<close>

record user =
  u_id :: int
  u_username :: string
  u_email :: string
  u_password_hash :: string
  u_last_login :: "int option"
  u_is_active :: bool

record site =
  s_site_id :: int
  s_name :: string
  s_description :: "string option"
  s_is_active :: bool
  s_created_at :: int

text \<open>\<open>UserSite\<close>, a row of \<open>user_site_mapping\<close>: the membership of a user in a site.\<close>

record user_site =
  us_id :: int
  us_user_id :: int
  us_site_id :: int
  us_role :: string
  us_assigned_at :: int

text \<open>
  The three tables, each the list of its rows. Foreign keys are not enforced (the target
  \<open>sites.id\<close> that \<open>UserSite.site_id\<close> declares is no column of \<open>sites\<close>), and a commit that
  respects the primary key, NOT NULL and unique constraints succeeds.
\<close>

record db =
  users :: "user list"
  sites :: "site list"
  user_sites :: "user_site list"



section \<open>SiteRepository (sites/repositories.py)\<close>











section \<open>SiteService (sites/services.py)\<close>







section \<open>The site creation controller (sites/controllers.py)\<close>



section \<open>Tokens (utils/security.py, auth/utils.py)\<close>

text \<open>
  The payload of a token: the claims this code writes and reads, each of which a decoded
  dictionary may lack. \<open>c_sites\<close> is the key \<open>sites\<close> that \<open>AuthService.login\<close> writes,
  \<open>c_site_ids\<close> the key \<open>site_ids\<close> that \<open>create_auth_token\<close> writes and
  \<open>get_site_context\<close> reads.
\<close>

record claims =
  c_sub :: "int option"
  c_site_ids :: "int list option"
  c_sites :: "int list option"
  c_username :: "string option"
  c_exp :: "int option"
  c_iat :: "int option"
  c_jti :: "string option"

text \<open>
  What \<open>jwt.decode(token, secret_key, algorithms=[JWT_ALGORITHM])\<close> of PyJWT does: it
  returns the payload of a well-formed, correctly signed, unexpired token, raises
  \<open>ExpiredSignatureError\<close> for an expired one and another \<open>InvalidTokenError\<close> for a
  malformed one or a signature mismatch; \<open>OtherJwtError\<close> is any exception that is no
  \<open>InvalidTokenError\<close> (a key the algorithm cannot use).
\<close>

datatype jwt_outcome = Decoded claims | ExpiredSignatureError | InvalidTokenError | OtherJwtError

text \<open>
  The libraries and the configuration the authentication code calls into: PyJWT, the
  signing key, \<open>bcrypt.checkpw\<close> behind \<open>verify_password\<close>, and Python's \<open>int()\<close> on a
  string (\<open>None\<close> where it raises \<open>ValueError\<close>).
\<close>

record env =
  jwt_decode :: "string \<Rightarrow> string \<Rightarrow> jwt_outcome"
  jwt_encode :: "claims \<Rightarrow> string \<Rightarrow> string"
  JWT_SECRET_KEY :: string
  verify_password :: "string \<Rightarrow> string \<Rightarrow> bool"
  py_int :: "string \<Rightarrow> int option"

text \<open>
  \<open>decode_token\<close>: the payload when it has the claims \<open>exp\<close>, \<open>iat\<close> and \<open>jti\<close>; \<open>None\<close>
  when a claim is missing and when PyJWT raises \<open>ExpiredSignatureError\<close> or
  \<open>InvalidTokenError\<close>; any other exception is not caught.
\<close>

definition decode_token :: "(string \<Rightarrow> string \<Rightarrow> jwt_outcome) \<Rightarrow> string \<Rightarrow> string \<Rightarrow> error + claims option" where
  "decode_token jwt_dec token secret_key =
     (case jwt_dec token secret_key of
        Decoded payload \<Rightarrow>
          if c_exp payload \<noteq> None \<and> c_iat payload \<noteq> None \<and> c_jti payload \<noteq> None
          then Inr (Some payload) else Inr None
      | ExpiredSignatureError \<Rightarrow> Inr None
      | InvalidTokenError \<Rightarrow> Inr None
      | OtherJwtError \<Rightarrow> Inl UncaughtError)"

text \<open>
  \<open>generate_token\<close>: adds \<open>exp\<close> (\<open>now\<close> plus the hours), \<open>iat\<close> and \<open>jti\<close>
  (\<open>secrets.token_hex(16)\<close>, here \<open>token_hex\<close>) and signs.
\<close>

definition JWT_EXPIRATION_HOURS :: int where "JWT_EXPIRATION_HOURS = 24"

definition generate_token :: "env \<Rightarrow> claims \<Rightarrow> int \<Rightarrow> int \<Rightarrow> string \<Rightarrow> string" where
  "generate_token e payload expiration_hours now token_hex =
     jwt_encode e
       (payload\<lparr>c_exp := Some (now + expiration_hours * 3600), c_iat := Some now,
                c_jti := Some token_hex\<rparr>)
       (JWT_SECRET_KEY e)"

text \<open>
  \<open>TOKEN_BLACKLIST\<close> of auth/utils.py is a set of token strings held by the process;
  \<open>validate_auth_token\<close> and \<open>invalidate_token\<close> are its only readers and writers.
\<close>

definition validate_auth_token :: "env \<Rightarrow> string set \<Rightarrow> string \<Rightarrow> error + claims option" where
  "validate_auth_token e TOKEN_BLACKLIST token =
     (if token \<in> TOKEN_BLACKLIST then Inr None
      else decode_token (jwt_decode e) token (JWT_SECRET_KEY e))"

definition invalidate_token :: "string set \<Rightarrow> string \<Rightarrow> bool \<times> string set" where
  "invalidate_token TOKEN_BLACKLIST token =
     (if token \<in> TOKEN_BLACKLIST then (False, TOKEN_BLACKLIST)
      else (True, insert token TOKEN_BLACKLIST))"

section \<open>The per-request authentication (auth/utils.py, auth/middlewares.py)\<close>

record request =
  req_endpoint :: string
  req_authorization :: "string option"
  req_cookie_access_token :: "string option"
  req_arg_site_id :: "string option"

text \<open>\<open>s.replace(old, '')\<close> for a non-empty \<open>old\<close>.\<close>

function remove_all :: "string \<Rightarrow> string \<Rightarrow> string" where
  "remove_all old [] = []"
| "remove_all old (c # cs) =
     (if old \<noteq> [] \<and> take (length old) (c # cs) = old
      then remove_all old (drop (length old) (c # cs))
      else c # remove_all old cs)"
  by pat_completeness auto
termination
  by (relation "measure (\<lambda>(old, s). length s)") auto

definition get_token_from_request :: "request \<Rightarrow> string option" where
  "get_token_from_request r =
     (let token =
            (case req_authorization r of
               None \<Rightarrow> None
             | Some auth_header \<Rightarrow>
                 if take 7 auth_header = ''Bearer '' then Some (remove_all ''Bearer '' auth_header)
                 else None)
      in if token = None \<or> token = Some [] then req_cookie_access_token r else token)"

text \<open>\<open>get_user_from_token\<close>: no user for a missing or zero \<open>sub\<close>.\<close>

definition get_user_from_token :: "user list \<Rightarrow> claims \<Rightarrow> user option" where
  "get_user_from_token tbl token_data =
     (case c_sub token_data of
        None \<Rightarrow> None
      | Some user_id \<Rightarrow> if user_id = 0 then None else find (\<lambda>u. u_id u = user_id) tbl)"

record site_context =
  ctx_id :: int
  ctx_available_sites :: "int list"

definition get_site_context :: "claims \<Rightarrow> int option \<Rightarrow> site_context option" where
  "get_site_context token_data requested =
     (let site_ids = (case c_site_ids token_data of None \<Rightarrow> [] | Some l \<Rightarrow> l)
      in case site_ids of
           [] \<Rightarrow> None
         | first_id # others \<Rightarrow>
             (case requested of
                Some r \<Rightarrow>
                  if r \<in> set site_ids
                  then Some \<lparr>ctx_id = r, ctx_available_sites = site_ids\<rparr>
                  else None
              | None \<Rightarrow> Some \<lparr>ctx_id = first_id, ctx_available_sites = site_ids\<rparr>))"

definition PUBLIC_ROUTES :: "string list" where
  "PUBLIC_ROUTES =
     [''auth.login'', ''auth.logout'', ''auth.request_password_reset'', ''auth.reset_password'']"

text \<open>
  The outcome of \<open>auth_middleware\<close>: it returns at once for a public route, aborts with a
  status, or publishes the user and the site context in \<open>g\<close>.
\<close>

datatype mw_result = PublicRoute | Abort nat | Authenticated user site_context

text \<open>
  \<open>auth_middleware\<close>. The query argument \<open>site_id\<close> is converted with \<open>int()\<close> when it is
  not empty (a failed conversion gives \<open>None\<close>); an empty argument stays the empty
  string, which is not \<open>None\<close> and is in no list of site ids.
\<close>

definition auth_middleware :: "env \<Rightarrow> string set \<Rightarrow> user list \<Rightarrow> request \<Rightarrow> error + mw_result" where
  "auth_middleware e TOKEN_BLACKLIST tbl r =
     (if req_endpoint r \<in> set PUBLIC_ROUTES then Inr PublicRoute
      else
        (case get_token_from_request r of
           None \<Rightarrow> Inr (Abort 401)
         | Some token \<Rightarrow>
             if token = [] then Inr (Abort 401)
             else
               bind (validate_auth_token e TOKEN_BLACKLIST token) (\<lambda>validated.
                 case validated of
                   None \<Rightarrow> Inr (Abort 401)
                 | Some token_data \<Rightarrow>
                     (case get_user_from_token tbl token_data of
                        None \<Rightarrow> Inr (Abort 401)
                      | Some usr \<Rightarrow>
                          if \<not> u_is_active usr then Inr (Abort 401)
                          else
                            (case (case req_arg_site_id r of
                                     None \<Rightarrow> get_site_context token_data None
                                   | Some arg \<Rightarrow>
                                       if arg = [] then None
                                       else get_site_context token_data (py_int e arg)) of
                               None \<Rightarrow> Inr (Abort 403)
                             | Some site_ctx \<Rightarrow> Inr (Authenticated usr site_ctx))))))"

section \<open>AuthService (auth/services.py)\<close>

text \<open>
  The Redis store: a key holds a value until its expiry time. \<open>SET key value EX ex\<close>
  with \<open>ex\<close> not positive is refused by the server.
\<close>

type_synonym redis = "string \<rightharpoonup> string \<times> int"

definition redis_get :: "redis \<Rightarrow> int \<Rightarrow> string \<Rightarrow> string option" where
  "redis_get rd now k =
     (case rd k of
        None \<Rightarrow> None
      | Some (v, expires) \<Rightarrow> if now < expires then Some v else None)"

definition redis_set :: "redis \<Rightarrow> int \<Rightarrow> string \<Rightarrow> string \<Rightarrow> int \<Rightarrow> error + redis" where
  "redis_set rd now k v ex =
     (if ex \<le> 0 then Inl UncaughtError else Inr (rd(k \<mapsto> (v, now + ex))))"

definition redis_delete :: "redis \<Rightarrow> string \<Rightarrow> redis" where
  "redis_delete rd k = rd(k := None)"

definition TOKEN_BLACKLIST_PREFIX :: string where
  "TOKEN_BLACKLIST_PREFIX = ''token:blacklist:''"

definition MAX_LOGIN_ATTEMPTS :: int where "MAX_LOGIN_ATTEMPTS = 5"
definition LOCKOUT_DURATION :: int where "LOCKOUT_DURATION = 15 * 60"

definition is_token_blacklisted :: "redis \<Rightarrow> int \<Rightarrow> string \<Rightarrow> bool" where
  "is_token_blacklisted rd now jti = (redis_get rd now (TOKEN_BLACKLIST_PREFIX @ jti) \<noteq> None)"

definition is_account_locked :: "redis \<Rightarrow> int \<Rightarrow> string \<Rightarrow> bool" where
  "is_account_locked rd now username = (redis_get rd now (''account_locked:'' @ username) \<noteq> None)"

text \<open>
  \<open>handle_failed_login\<close>: counts the attempt and locks the account at
  \<open>MAX_LOGIN_ATTEMPTS\<close>; \<open>int(attempts_str)\<close> raises for a value that is no number.
\<close>

definition handle_failed_login :: "env \<Rightarrow> redis \<Rightarrow> int \<Rightarrow> string \<Rightarrow> error + bool \<times> redis" where
  "handle_failed_login e rd now username =
     (let attempt_key = ''login_attempts:'' @ username
      in bind (case redis_get rd now attempt_key of
                 None \<Rightarrow> Inr 0
               | Some attempts_str \<Rightarrow>
                   if attempts_str = [] then Inr 0
                   else (case py_int e attempts_str of
                           None \<Rightarrow> Inl (ValueError ''invalid literal for int()'')
                         | Some n \<Rightarrow> Inr n)) (\<lambda>old_attempts.
           let attempts = old_attempts + 1
           in bind (redis_set rd now attempt_key (show_int attempts) LOCKOUT_DURATION) (\<lambda>rd1.
                if attempts \<ge> MAX_LOGIN_ATTEMPTS
                then bind (redis_set rd1 now (''account_locked:'' @ username) ''1'' LOCKOUT_DURATION)
                       (\<lambda>rd2. Inr (True, rd2))
                else Inr (False, rd1))))"

definition reset_failed_login_attempts :: "redis \<Rightarrow> string \<Rightarrow> redis" where
  "reset_failed_login_attempts rd username =
     redis_delete (redis_delete rd (''login_attempts:'' @ username)) (''account_locked:'' @ username)"

text \<open>\<open>User.get_site_ids\<close>: the site ids of the user's memberships.\<close>

definition get_site_ids :: "db \<Rightarrow> user \<Rightarrow> int list" where
  "get_site_ids d usr = map us_site_id (filter (\<lambda>m. us_user_id m = u_id usr) (user_sites d))"

record site_info =
  si_id :: int
  si_name :: string
  si_role :: string
  si_description :: "string option"

text \<open>\<open>get_user_sites\<close>: the user's memberships joined with the active sites.\<close>

definition get_user_sites :: "db \<Rightarrow> user \<Rightarrow> site_info list" where
  "get_user_sites d usr =
     [\<lparr>si_id = s_site_id s, si_name = s_name s, si_role = us_role m,
       si_description = s_description s\<rparr>.
        m \<leftarrow> user_sites d, s \<leftarrow> sites d,
        us_site_id m = s_site_id s \<and> us_user_id m = u_id usr \<and> s_is_active s]"

record login_result =
  lr_token :: string
  lr_user :: user
  lr_sites :: "site_info list"

text \<open>
  \<open>login\<close>, with the state it changes (the users table for \<open>last_login\<close>, Redis for the
  attempt counters). \<open>now\<close> is the clock, \<open>token_hex\<close> the random \<open>jti\<close> of the token.
\<close>

definition login :: "env \<Rightarrow> db \<Rightarrow> redis \<Rightarrow> int \<Rightarrow> string \<Rightarrow> string \<Rightarrow> string \<Rightarrow>
    (error + login_result) \<times> db \<times> redis" where
  "login e d rd now token_hex username password =
     (if is_account_locked rd now username then (Inl Unauthorized, d, rd)
      else
        (case find (\<lambda>u. u_username u = username) (users d) of
           None \<Rightarrow>
             (case handle_failed_login e rd now username of
                Inl err \<Rightarrow> (Inl err, d, rd)
              | Inr (locked, rd') \<Rightarrow> (Inl Unauthorized, d, rd'))
         | Some usr \<Rightarrow>
             if \<not> verify_password e password (u_password_hash usr) then
               (case handle_failed_login e rd now username of
                  Inl err \<Rightarrow> (Inl err, d, rd)
                | Inr (locked, rd') \<Rightarrow> (Inl Unauthorized, d, rd'))
             else
               (let rd1 = reset_failed_login_attempts rd username;
                    usr1 = usr\<lparr>u_last_login := Some now\<rparr>;
                    d1 = d\<lparr>users := map (\<lambda>u. if u_id u = u_id usr then usr1 else u) (users d)\<rparr>;
                    site_ids = get_site_ids d1 usr1
                in if site_ids = [] then (Inl Forbidden, d1, rd1)
                   else
                     (let token_payload =
                            \<lparr>c_sub = Some (u_id usr1), c_site_ids = None, c_sites = Some site_ids,
                             c_username = Some (u_username usr1), c_exp = None, c_iat = None,
                             c_jti = None\<rparr>;
                          token = generate_token e token_payload JWT_EXPIRATION_HOURS now token_hex
                      in (Inr \<lparr>lr_token = token, lr_user = usr1,
                               lr_sites = get_user_sites d1 usr1\<rparr>, d1, rd1)))))"

text \<open>
  \<open>logout\<close>: decodes the token and stores \<open>token:blacklist:<jti>\<close> in Redis for the
  remaining lifetime of the token; every exception inside becomes \<open>BadRequest\<close>.
  \<open>TOKEN_BLACKLIST\<close> of auth/utils.py is not touched.
\<close>

definition logout :: "env \<Rightarrow> redis \<Rightarrow> int \<Rightarrow> string \<Rightarrow> (error + bool) \<times> redis" where
  "logout e rd now token =
     (case decode_token (jwt_decode e) token (JWT_SECRET_KEY e) of
        Inl err \<Rightarrow> (Inl BadRequest, rd)
      | Inr None \<Rightarrow> (Inl BadRequest, rd)
      | Inr (Some payload) \<Rightarrow>
          (case (c_jti payload, c_exp payload) of
             (Some jti, Some ex) \<Rightarrow>
               if jti = [] \<or> ex = 0 then (Inl BadRequest, rd)
               else
                 (case redis_set rd now (TOKEN_BLACKLIST_PREFIX @ jti) ''1'' (max 0 (ex - now)) of
                    Inl err \<Rightarrow> (Inl BadRequest, rd)
                  | Inr rd' \<Rightarrow> (Inr True, rd'))
           | _ \<Rightarrow> (Inl BadRequest, rd)))"


section \<open>Notions used to state the properties\<close>

text \<open>The table without any row of the given interaction id.\<close>

definition without_id :: "interaction list \<Rightarrow> int \<Rightarrow> interaction list" where
  "without_id tbl iid = filter (\<lambda>x. interaction_id x \<noteq> iid) tbl"








section \<open>Example states\<close>

definition r1 :: interaction where
  "r1 = \<lparr>interaction_id = 1, site_id = 1, title = ''Kickoff'', itype = ''Meeting'',
          lead = ''Ann'', start_datetime = 100, timezone = ''UTC'', end_datetime = None,
          location = None, description = None, notes = None, created_by = 7,
          created_at = 50, updated_by = None, updated_at = None\<rparr>"

definition r2 :: interaction where
  "r2 = \<lparr>interaction_id = 2, site_id = 2, title = ''Audit'', itype = ''Review'',
          lead = ''Bob'', start_datetime = 300, timezone = ''UTC'', end_datetime = Some 400,
          location = Some ''Room 2'', description = None, notes = None, created_by = 8,
          created_at = 60, updated_by = None, updated_at = None\<rparr>"

definition ann :: user where
  "ann = \<lparr>u_id = 1, u_username = ''ann'', u_email = ''ann@example.org'',
           u_password_hash = ''hash-ann'', u_last_login = None, u_is_active = True\<rparr>"

definition bob :: user where
  "bob = \<lparr>u_id = 2, u_username = ''bob'', u_email = ''bob@example.org'',
           u_password_hash = ''hash-bob'', u_last_login = None, u_is_active = True\<rparr>"

definition hq :: site where
  "hq = \<lparr>s_site_id = 1, s_name = ''HQ'', s_description = None, s_is_active = True,
          s_created_at = 10\<rparr>"

text \<open>Ann is the only admin of the site, Bob a plain member.\<close>

definition db1 :: db where
  "db1 = \<lparr>users = [ann, bob], sites = [hq],
           user_sites =
             [\<lparr>us_id = 1, us_user_id = 1, us_site_id = 1, us_role = ''admin'', us_assigned_at = 20\<rparr>,
              \<lparr>us_id = 2, us_user_id = 2, us_site_id = 1, us_role = ''user'', us_assigned_at = 21\<rparr>]\<rparr>"

text \<open>Carl has an account and no membership.\<close>

definition carl :: user where
  "carl = \<lparr>u_id = 3, u_username = ''carl'', u_email = ''carl@example.org'',
            u_password_hash = ''hash-carl'', u_last_login = None, u_is_active = True\<rparr>"

definition db2 :: db where
  "db2 = db1\<lparr>users := [ann, bob, carl]\<rparr>"

text \<open>
  A stand-in for the libraries: the only token that decodes is \<open>''good''\<close> under the key
  \<open>''secret''\<close>, \<open>''old''\<close> is expired, \<open>''bare''\<close> decodes to a payload without \<open>jti\<close>; a
  password matches the hash \<open>hash-<password>\<close>; \<open>int()\<close> reads decimal digits.
\<close>

definition good_claims :: claims where
  "good_claims = \<lparr>c_sub = Some 1, c_site_ids = Some [1, 4], c_sites = None,
                   c_username = Some ''ann'', c_exp = Some 5000, c_iat = Some 0,
                   c_jti = Some ''jti-1''\<rparr>"

definition demo_jwt_decode :: "string \<Rightarrow> string \<Rightarrow> jwt_outcome" where
  "demo_jwt_decode token secret_key =
     (if secret_key \<noteq> ''secret'' then InvalidTokenError
      else if token = ''good'' then Decoded good_claims
      else if token = ''old'' then ExpiredSignatureError
      else if token = ''bare'' then Decoded (good_claims\<lparr>c_jti := None\<rparr>)
      else InvalidTokenError)"

fun digits_value :: "nat \<Rightarrow> string \<Rightarrow> nat option" where
  "digits_value acc [] = Some acc"
| "digits_value acc (c # cs) =
     (let n = (of_char c :: nat)
      in if 48 \<le> n \<and> n \<le> 57 then digits_value (10 * acc + (n - 48)) cs else None)"

definition demo_int :: "string \<Rightarrow> int option" where
  "demo_int s = (if s = [] then None else map_option int (digits_value 0 s))"

definition demo_env :: env where
  "demo_env = \<lparr>jwt_decode = demo_jwt_decode,
                jwt_encode = (\<lambda>payload secret_key. ''signed''),
                JWT_SECRET_KEY = ''secret'',
                verify_password = (\<lambda>password hashed. hashed = ''hash-'' @ password),
                py_int = demo_int\<rparr>"

definition demo_request :: request where
  "demo_request = \<lparr>req_endpoint = ''interactions.list'', req_authorization = Some ''Bearer good'',
                    req_cookie_access_token = None, req_arg_site_id = None\<rparr>"

section \<open>Properties\<close>

subsection \<open>Site scoping of the single-record operations\<close>

lemma pk_interaction:
  "distinct (map interaction_id tbl) \<Longrightarrow> i \<in> set tbl \<Longrightarrow> r \<in> set tbl \<Longrightarrow>
     interaction_id i = interaction_id r \<Longrightarrow> i = r"
  by (meson distinct_map inj_onD)

lemma get_by_id_outside:
  assumes "distinct (map interaction_id tbl)" "r \<in> set tbl" "site_id r \<notin> set allowed"
  shows "get_by_id tbl (interaction_id r) allowed = Inl ResourceNotFoundError"
proof -
  have "\<And>i. i \<in> set tbl \<Longrightarrow> interaction_id i = interaction_id r \<Longrightarrow> i = r"
    using pk_interaction[OF assms(1) _ assms(2)] by blast
  then have "find (\<lambda>i. interaction_id i = interaction_id r \<and> site_id i \<in> set allowed) tbl = None"
    using assms(3) by (auto simp: find_None_iff)
  then show ?thesis by (simp add: get_by_id_def)
qed

lemma get_by_id_Inr:
  "get_by_id tbl iid allowed = Inr i \<Longrightarrow>
     i \<in> set tbl \<and> interaction_id i = iid \<and> site_id i \<in> set allowed"
  by (auto simp: get_by_id_def find_Some_iff split: option.splits)

lemma get_by_id_absent:
  "iid \<notin> interaction_id ` set tbl \<Longrightarrow> get_by_id tbl iid allowed = Inl ResourceNotFoundError"
  by (auto simp: get_by_id_def find_None_iff split: option.splits)

lemma update_not_found:
  "get_by_id tbl iid allowed = Inl e \<Longrightarrow> update tbl iid data allowed uid now = (Inl e, tbl)"
  by (simp add: update_def)

lemma delete_not_found:
  "get_by_id tbl iid allowed = Inl e \<Longrightarrow> delete tbl iid allowed = (Inl e, tbl)"
  by (simp add: delete_def)

lemma update_Inr:
  "fst (update tbl iid data allowed uid now) = Inr row \<Longrightarrow>
     \<exists>i\<in>set tbl. interaction_id i = iid \<and> site_id i \<in> set allowed"
  by (cases "get_by_id tbl iid allowed") (auto simp: update_def dest: get_by_id_Inr)

lemma delete_Inr:
  "fst (delete tbl iid allowed) = Inr b \<Longrightarrow>
     \<exists>i\<in>set tbl. interaction_id i = iid \<and> site_id i \<in> set allowed"
  by (cases "get_by_id tbl iid allowed") (auto simp: delete_def dest: get_by_id_Inr)

text \<open>
  C1. For a stored interaction whose site is not among the allowed site ids (the table
  having one row per interaction id), \<open>get_by_id\<close>, \<open>update\<close> and \<open>delete\<close> on its id
  raise \<open>ResourceNotFoundError\<close> and leave the table as it is, exactly the result they
  have on the table from which every row of that id is removed; and whenever one of the
  three operations succeeds, the interaction it found is in an allowed site.
\<close>

theorem outside_allowed_sites_is_not_found:
  assumes "distinct (map interaction_id tbl)"
      and "r \<in> set tbl"
      and "site_id r \<notin> set allowed"
  shows "get_by_id tbl (interaction_id r) allowed = Inl ResourceNotFoundError
       \<and> update tbl (interaction_id r) payload allowed uid now = (Inl ResourceNotFoundError, tbl)
       \<and> delete tbl (interaction_id r) allowed = (Inl ResourceNotFoundError, tbl)
       \<and> get_by_id (without_id tbl (interaction_id r)) (interaction_id r) allowed
           = Inl ResourceNotFoundError
       \<and> fst (update (without_id tbl (interaction_id r)) (interaction_id r) payload allowed uid now)
           = Inl ResourceNotFoundError
       \<and> fst (delete (without_id tbl (interaction_id r)) (interaction_id r) allowed)
           = Inl ResourceNotFoundError
       \<and> (\<forall>iid i. get_by_id tbl iid allowed = Inr i \<longrightarrow> site_id i \<in> set allowed)
       \<and> (\<forall>iid row. fst (update tbl iid payload allowed uid now) = Inr row \<longrightarrow>
             (\<exists>i\<in>set tbl. interaction_id i = iid \<and> site_id i \<in> set allowed))
       \<and> (\<forall>iid b. fst (delete tbl iid allowed) = Inr b \<longrightarrow>
             (\<exists>i\<in>set tbl. interaction_id i = iid \<and> site_id i \<in> set allowed))"
proof -
  have a: "get_by_id tbl (interaction_id r) allowed = Inl ResourceNotFoundError"
    using assms by (rule get_by_id_outside)
  have "interaction_id r \<notin> interaction_id ` set (without_id tbl (interaction_id r))"
    by (auto simp: without_id_def)
  then have b: "get_by_id (without_id tbl (interaction_id r)) (interaction_id r) allowed
      = Inl ResourceNotFoundError"
    by (rule get_by_id_absent)
  show ?thesis
    using a b get_by_id_Inr[of tbl _ allowed] update_Inr[of tbl _ payload allowed uid now]
      delete_Inr[of tbl _ allowed]
    by (simp add: update_not_found delete_not_found)
qed

theorem outside_allowed_sites_is_not_found_witness:
  "distinct (map interaction_id [r1, r2]) \<and> r2 \<in> set [r1, r2] \<and> site_id r2 \<notin> set [1]
   \<and> get_by_id [r1, r2] 2 [1] = Inl ResourceNotFoundError
   \<and> update [r1, r2] 2 [(''title'', PStr ''Taken'')] [1] 7 500 = (Inl ResourceNotFoundError, [r1, r2])
   \<and> delete [r1, r2] 2 [1] = (Inl ResourceNotFoundError, [r1, r2])
   \<and> get_by_id [r1] 2 [1] = Inl ResourceNotFoundError
   \<and> get_by_id [r1, r2] 1 [1] = Inr r1 \<and> site_id r1 \<in> set [1]
   \<and> fst (delete [r1, r2] 1 [1]) = Inr True"
proof -
  have h: "distinct (map interaction_id [r1, r2])" "r2 \<in> set [r1, r2]" "site_id r2 \<notin> set [1]"
    by (simp_all add: r1_def r2_def)
  have i: "interaction_id r2 = 2" by (simp add: r2_def)
  have w: "without_id [r1, r2] 2 = [r1]" by (simp add: without_id_def r1_def r2_def)
  have g: "get_by_id [r1, r2] 1 [1] = Inr r1" by (simp add: get_by_id_def r1_def)
  have d: "fst (delete [r1, r2] 1 [1]) = Inr True" by (simp add: delete_def g)
  show ?thesis
    using outside_allowed_sites_is_not_found[OF h, of "[(''title'', PStr ''Taken'')]" 7 500] h g d
    unfolding i w by blast
qed

subsection \<open>What an update may change\<close>

lemma set_items_keeps:
  "set_items obj data = Inr obj' \<Longrightarrow> k \<notin> fst ` set data \<Longrightarrow> obj' k = obj k"
proof (induction data arbitrary: obj)
  case Nil
  then show ?case by simp
next
  case (Cons a data)
  obtain key v where a: "a = (key, v)" by (cases a)
  show ?case
  proof (cases "hasattr key")
    case True
    with Cons.prems a obtain o1 where s: "setattr obj key v = Inr o1" and r: "set_items o1 data = Inr obj'"
      by (auto split: sum.splits)
    from s have "o1 = obj(key \<mapsto> v)" by (auto simp: setattr_def split: if_splits)
    moreover have "k \<noteq> key" using Cons.prems a by auto
    ultimately have "o1 k = obj k" by simp
    moreover have "obj' k = o1 k" using Cons.IH[OF r] Cons.prems by auto
    ultimately show ?thesis by simp
  next
    case False
    then show ?thesis using Cons a by auto
  qed
qed

lemma bind_Inr: "bind x f = Inr y \<Longrightarrow> \<exists>v. x = Inr v \<and> f v = Inr y"
  by (cases x) (auto simp: bind_def)

lemma to_row_site_id:
  "to_row obj = Inr row \<Longrightarrow> int_col obj ''site_id'' = Inr (site_id row)"
  by (auto simp: to_row_def bind_def split: sum.splits)

lemma int_col_Inr: "int_col obj k = Inr n \<Longrightarrow> obj k = Some (PInt n)"
  by (auto simp: int_col_def split: option.splits pyval.splits)

lemma sync_site_id:
  "sync_relationships obj ''site_id'' = Some (PInt n) \<Longrightarrow> obj ''site_id'' = Some (PInt n)"
  by (auto simp: sync_relationships_def Let_def split: if_splits)

lemma load_site_id: "load i ''site_id'' = Some (PInt (site_id i))"
  by (simp add: load_def)

lemma update_Inr_row:
  assumes "update tbl iid data allowed uid now = (Inr row, tbl')"
  shows "\<exists>i obj. get_by_id tbl iid allowed = Inr i \<and> set_items (load i) data = Inr obj
           \<and> to_row (sync_relationships (obj(''updated_by'' \<mapsto> PInt uid, ''updated_at'' \<mapsto> PDateTime now))) = Inr row
           \<and> tbl' = map (\<lambda>r. if interaction_id r = interaction_id i then row else r) tbl"
  using assms
  by (auto simp: update_def commit_update_def bind_def split: sum.splits if_splits prod.splits)

lemma site_ids_kept:
  assumes "distinct (map interaction_id tbl)" "i \<in> set tbl" "site_id row = site_id i"
  shows "map site_id (map (\<lambda>r. if interaction_id r = interaction_id i then row else r) tbl)
           = map site_id tbl"
proof -
  have "\<And>r. r \<in> set tbl \<Longrightarrow> interaction_id r = interaction_id i \<Longrightarrow> r = i"
    using pk_interaction[OF assms(1) _ assms(2)] by blast
  then show ?thesis using assms(3) by (auto simp: map_eq_conv)
qed

lemma schema_fields_exclude_site_id:
  "fst ` set payload \<subseteq> set InteractionUpdateSchema_fields \<Longrightarrow> ''site_id'' \<notin> fst ` set payload"
  by (auto simp: InteractionUpdateSchema_fields_def)

lemmas update_eval =
  update_def get_by_id_def load_def bind_def hasattr_def column_names_def
  relationship_names_def method_names_def setattr_def commit_update_def to_row_def
  sync_relationships_def int_col_def str_col_def dt_col_def int_null_col_def
  str_null_col_def dt_null_col_def opt_val_def

text \<open>
  C6, as stated, fails: \<open>update\<close> assigns every key of the payload that names an
  attribute, \<open>site_id\<close> included. The interaction of site 1 is moved to site 2.
\<close>

theorem update_with_site_id_key_moves_interaction:
  "site_id r1 = 1
   \<and> update [r1, r2] 1 [(''site_id'', PInt 2)] [1] 7 500
       = (Inr (r1\<lparr>site_id := 2, updated_by := Some 7, updated_at := Some 500\<rparr>),
          [r1\<lparr>site_id := 2, updated_by := Some 7, updated_at := Some 500\<rparr>, r2])"
  by (simp add: update_eval r1_def r2_def)

text \<open>
  C6, amended. For a payload without the key \<open>site_id\<close> (every payload made of the fields
  \<open>InteractionUpdateSchema\<close> declares is one), an \<open>update\<close> that completes returns the
  interaction with the site id it had before the call, and stores it in place of the old
  row; with one row per interaction id no stored site id changes.
\<close>

theorem update_without_site_id_key_keeps_site_id:
  assumes "''site_id'' \<notin> fst ` set payload"
      and "update tbl iid payload allowed uid now = (Inr row, tbl')"
  shows "\<exists>i. get_by_id tbl iid allowed = Inr i \<and> site_id row = site_id i
            \<and> tbl' = map (\<lambda>r. if interaction_id r = interaction_id i then row else r) tbl
            \<and> (distinct (map interaction_id tbl) \<longrightarrow> map site_id tbl' = map site_id tbl)"
proof -
  from update_Inr_row[OF assms(2)] obtain i obj where
    g: "get_by_id tbl iid allowed = Inr i" and s: "set_items (load i) payload = Inr obj"
    and t: "to_row (sync_relationships
                     (obj(''updated_by'' \<mapsto> PInt uid, ''updated_at'' \<mapsto> PDateTime now))) = Inr row"
    and m: "tbl' = map (\<lambda>r. if interaction_id r = interaction_id i then row else r) tbl"
    by blast
  have "sync_relationships (obj(''updated_by'' \<mapsto> PInt uid, ''updated_at'' \<mapsto> PDateTime now))
          ''site_id'' = Some (PInt (site_id row))"
    using to_row_site_id[OF t] by (rule int_col_Inr)
  then have "(obj(''updated_by'' \<mapsto> PInt uid, ''updated_at'' \<mapsto> PDateTime now)) ''site_id''
          = Some (PInt (site_id row))"
    by (rule sync_site_id)
  then have "obj ''site_id'' = Some (PInt (site_id row))" by simp
  moreover have "obj ''site_id'' = load i ''site_id''"
    using set_items_keeps[OF s assms(1)] .
  ultimately have e: "site_id row = site_id i" by (simp add: load_site_id)
  have "i \<in> set tbl" using get_by_id_Inr[OF g] by simp
  then have "distinct (map interaction_id tbl) \<longrightarrow> map site_id tbl' = map site_id tbl"
    unfolding m using site_ids_kept[OF _ _ e] by blast
  with g e m show ?thesis by blast
qed

theorem update_without_site_id_key_keeps_site_id_witness:
  "''site_id'' \<notin> fst ` set [(''title'', PStr ''Review'')]
   \<and> fst ` set [(''title'', PStr ''Review'')] \<subseteq> set InteractionUpdateSchema_fields
   \<and> update [r1, r2] 1 [(''title'', PStr ''Review'')] [1] 7 500
       = (Inr (r1\<lparr>title := ''Review'', updated_by := Some 7, updated_at := Some 500\<rparr>),
          [r1\<lparr>title := ''Review'', updated_by := Some 7, updated_at := Some 500\<rparr>, r2])
   \<and> distinct (map interaction_id [r1, r2])
   \<and> get_by_id [r1, r2] 1 [1] = Inr r1
   \<and> site_id (r1\<lparr>title := ''Review'', updated_by := Some 7, updated_at := Some 500\<rparr>) = site_id r1
   \<and> map site_id [r1\<lparr>title := ''Review'', updated_by := Some 7, updated_at := Some 500\<rparr>, r2]
       = map site_id [r1, r2]"
proof -
  have k: "''site_id'' \<notin> fst ` set [(''title'', PStr ''Review'')]" by simp
  have f: "fst ` set [(''title'', PStr ''Review'')] \<subseteq> set InteractionUpdateSchema_fields"
    by (simp add: InteractionUpdateSchema_fields_def)
  have u: "update [r1, r2] 1 [(''title'', PStr ''Review'')] [1] 7 500
       = (Inr (r1\<lparr>title := ''Review'', updated_by := Some 7, updated_at := Some 500\<rparr>),
          [r1\<lparr>title := ''Review'', updated_by := Some 7, updated_at := Some 500\<rparr>, r2])"
    by (simp add: update_eval r1_def r2_def)
  have d: "distinct (map interaction_id [r1, r2])" by (simp add: r1_def r2_def)
  have g: "get_by_id [r1, r2] 1 [1] = Inr r1" by (simp add: get_by_id_def r1_def)
  show ?thesis
    using update_without_site_id_key_keeps_site_id[OF k u] k f u d g by auto
qed

subsection \<open>Pagination\<close>










subsection \<open>The last admin of a site\<close>










































subsection \<open>Adding a member twice\<close>












subsection \<open>Creating a site\<close>













subsection \<open>Token validation\<close>



subsection \<open>The active site context\<close>

lemma middleware_site_step:
  assumes "req_endpoint rq \<notin> set PUBLIC_ROUTES"
      and "get_token_from_request rq = Some token" and "token \<noteq> []"
      and "validate_auth_token e TOKEN_BLACKLIST token = Inr (Some p)"
      and "get_user_from_token tbl p = Some usr" and "u_is_active usr"
  shows "auth_middleware e TOKEN_BLACKLIST tbl rq
           = (case (case req_arg_site_id rq of
                      None \<Rightarrow> get_site_context p None
                    | Some arg \<Rightarrow> if arg = [] then None else get_site_context p (py_int e arg)) of
                None \<Rightarrow> Inr (Abort 403)
              | Some site_ctx \<Rightarrow> Inr (Authenticated usr site_ctx))"
  using assms by (simp add: auth_middleware_def bind_def)

text \<open>
  C8. For a token payload whose \<open>site_ids\<close> list is not empty, \<open>get_site_context\<close>
  resolves a requested site id that is in the list to that id, gives no context for a
  requested id that is not in the list, and resolves to the first id of the list when no
  site id is requested. In \<open>auth_middleware\<close>, for a request that has passed the token
  and user checks, a missing \<open>site_id\<close> argument gives the context of the first id, and
  an argument that \<open>int()\<close> reads as \<open>r\<close> gives the context of \<open>r\<close> when \<open>r\<close> is in the list
  and aborts with 403 when it is not.
\<close>

theorem site_context_resolution:
  assumes "c_site_ids p = Some (first_id # others)"
  shows "(r \<in> set (first_id # others) \<longrightarrow>
            get_site_context p (Some r)
              = Some \<lparr>ctx_id = r, ctx_available_sites = first_id # others\<rparr>)
       \<and> (r \<notin> set (first_id # others) \<longrightarrow> get_site_context p (Some r) = None)
       \<and> get_site_context p None
            = Some \<lparr>ctx_id = first_id, ctx_available_sites = first_id # others\<rparr>
       \<and> (req_endpoint rq \<notin> set PUBLIC_ROUTES \<and> get_token_from_request rq = Some token
            \<and> token \<noteq> [] \<and> validate_auth_token e TOKEN_BLACKLIST token = Inr (Some p)
            \<and> get_user_from_token tbl p = Some usr \<and> u_is_active usr \<longrightarrow>
              (req_arg_site_id rq = None \<longrightarrow>
                 auth_middleware e TOKEN_BLACKLIST tbl rq
                   = Inr (Authenticated usr
                            \<lparr>ctx_id = first_id, ctx_available_sites = first_id # others\<rparr>))
            \<and> (\<forall>arg. req_arg_site_id rq = Some arg \<and> arg \<noteq> [] \<and> py_int e arg = Some r \<longrightarrow>
                 auth_middleware e TOKEN_BLACKLIST tbl rq
                   = (if r \<in> set (first_id # others)
                      then Inr (Authenticated usr
                                  \<lparr>ctx_id = r, ctx_available_sites = first_id # others\<rparr>)
                      else Inr (Abort 403))))"
proof -
  have a: "r \<in> set (first_id # others) \<longrightarrow>
            get_site_context p (Some r)
              = Some \<lparr>ctx_id = r, ctx_available_sites = first_id # others\<rparr>"
    and b: "r \<notin> set (first_id # others) \<longrightarrow> get_site_context p (Some r) = None"
    and c: "get_site_context p None
            = Some \<lparr>ctx_id = first_id, ctx_available_sites = first_id # others\<rparr>"
    using assms by (simp_all add: get_site_context_def)
  have "req_endpoint rq \<notin> set PUBLIC_ROUTES \<and> get_token_from_request rq = Some token
            \<and> token \<noteq> [] \<and> validate_auth_token e TOKEN_BLACKLIST token = Inr (Some p)
            \<and> get_user_from_token tbl p = Some usr \<and> u_is_active usr \<longrightarrow>
              (req_arg_site_id rq = None \<longrightarrow>
                 auth_middleware e TOKEN_BLACKLIST tbl rq
                   = Inr (Authenticated usr
                            \<lparr>ctx_id = first_id, ctx_available_sites = first_id # others\<rparr>))
            \<and> (\<forall>arg. req_arg_site_id rq = Some arg \<and> arg \<noteq> [] \<and> py_int e arg = Some r \<longrightarrow>
                 auth_middleware e TOKEN_BLACKLIST tbl rq
                   = (if r \<in> set (first_id # others)
                      then Inr (Authenticated usr
                                  \<lparr>ctx_id = r, ctx_available_sites = first_id # others\<rparr>)
                      else Inr (Abort 403)))"
  proof (intro impI conjI allI)
    assume h: "req_endpoint rq \<notin> set PUBLIC_ROUTES \<and> get_token_from_request rq = Some token
            \<and> token \<noteq> [] \<and> validate_auth_token e TOKEN_BLACKLIST token = Inr (Some p)
            \<and> get_user_from_token tbl p = Some usr \<and> u_is_active usr"
    then have m: "auth_middleware e TOKEN_BLACKLIST tbl rq
           = (case (case req_arg_site_id rq of
                      None \<Rightarrow> get_site_context p None
                    | Some arg \<Rightarrow> if arg = [] then None else get_site_context p (py_int e arg)) of
                None \<Rightarrow> Inr (Abort 403)
              | Some site_ctx \<Rightarrow> Inr (Authenticated usr site_ctx))"
      using middleware_site_step[of rq token e TOKEN_BLACKLIST p tbl usr] by blast
    show "auth_middleware e TOKEN_BLACKLIST tbl rq
            = Inr (Authenticated usr \<lparr>ctx_id = first_id, ctx_available_sites = first_id # others\<rparr>)"
      if "req_arg_site_id rq = None"
      using that m c by simp
    show "auth_middleware e TOKEN_BLACKLIST tbl rq
            = (if r \<in> set (first_id # others)
               then Inr (Authenticated usr \<lparr>ctx_id = r, ctx_available_sites = first_id # others\<rparr>)
               else Inr (Abort 403))"
      if "req_arg_site_id rq = Some arg \<and> arg \<noteq> [] \<and> py_int e arg = Some r" for arg
      using that m a b by (cases "r \<in> set (first_id # others)") auto
  qed
  with a b c show ?thesis by blast
qed

theorem site_context_resolution_witness:
  "c_site_ids good_claims = Some (1 # [4])
   \<and> (4::int) \<in> set (1 # [4])
   \<and> get_site_context good_claims (Some 4) = Some \<lparr>ctx_id = 4, ctx_available_sites = 1 # [4]\<rparr>
   \<and> (2::int) \<notin> set (1 # [4])
   \<and> get_site_context good_claims (Some 2) = None
   \<and> get_site_context good_claims None = Some \<lparr>ctx_id = 1, ctx_available_sites = 1 # [4]\<rparr>
   \<and> req_endpoint demo_request \<notin> set PUBLIC_ROUTES
   \<and> get_token_from_request demo_request = Some ''good''
   \<and> validate_auth_token demo_env {} ''good'' = Inr (Some good_claims)
   \<and> get_user_from_token [ann, bob] good_claims = Some ann \<and> u_is_active ann
   \<and> req_arg_site_id demo_request = None
   \<and> auth_middleware demo_env {} [ann, bob] demo_request
       = Inr (Authenticated ann \<lparr>ctx_id = 1, ctx_available_sites = 1 # [4]\<rparr>)
   \<and> py_int demo_env ''4'' = Some 4 \<and> py_int demo_env ''2'' = Some 2
   \<and> auth_middleware demo_env {} [ann, bob] (demo_request\<lparr>req_arg_site_id := Some ''4''\<rparr>)
       = Inr (Authenticated ann \<lparr>ctx_id = 4, ctx_available_sites = 1 # [4]\<rparr>)
   \<and> auth_middleware demo_env {} [ann, bob] (demo_request\<lparr>req_arg_site_id := Some ''2''\<rparr>)
       = Inr (Abort 403)"
proof -
  have s: "c_site_ids good_claims = Some (1 # [4])" by (simp add: good_claims_def)
  have i4: "(4::int) \<in> set (1 # [4])" and i2: "(2::int) \<notin> set (1 # [4])" by simp_all
  have ep: "req_endpoint demo_request \<notin> set PUBLIC_ROUTES"
    "req_endpoint (demo_request\<lparr>req_arg_site_id := Some ''4''\<rparr>) \<notin> set PUBLIC_ROUTES"
    "req_endpoint (demo_request\<lparr>req_arg_site_id := Some ''2''\<rparr>) \<notin> set PUBLIC_ROUTES"
    by (simp_all add: demo_request_def PUBLIC_ROUTES_def)
  have tk: "get_token_from_request demo_request = Some ''good''"
    "get_token_from_request (demo_request\<lparr>req_arg_site_id := Some ''4''\<rparr>) = Some ''good''"
    "get_token_from_request (demo_request\<lparr>req_arg_site_id := Some ''2''\<rparr>) = Some ''good''"
    by (simp_all add: get_token_from_request_def demo_request_def)
  have ne: "''good'' \<noteq> []" by simp
  have v: "validate_auth_token demo_env {} ''good'' = Inr (Some good_claims)"
    by (simp add: validate_auth_token_def decode_token_def demo_env_def demo_jwt_decode_def
          good_claims_def)
  have u: "get_user_from_token [ann, bob] good_claims = Some ann" "u_is_active ann"
    by (simp_all add: get_user_from_token_def good_claims_def ann_def)
  have n: "req_arg_site_id demo_request = None" by (simp add: demo_request_def)
  have p: "py_int demo_env ''4'' = Some 4" "py_int demo_env ''2'' = Some 2"
    by (simp_all add: demo_env_def demo_int_def)
  note t4 = site_context_resolution[OF s, of 4]
  note t2 = site_context_resolution[OF s, of 2]
  have c1: "get_site_context good_claims (Some 4) = Some \<lparr>ctx_id = 4, ctx_available_sites = 1 # [4]\<rparr>"
    using t4 i4 by blast
  have c2: "get_site_context good_claims (Some 2) = None" using t2 i2 by blast
  have c3: "get_site_context good_claims None = Some \<lparr>ctx_id = 1, ctx_available_sites = 1 # [4]\<rparr>"
    using t4 by blast
  have c4: "auth_middleware demo_env {} [ann, bob] demo_request
       = Inr (Authenticated ann \<lparr>ctx_id = 1, ctx_available_sites = 1 # [4]\<rparr>)"
    using t4[of demo_request "''good''" demo_env "{}" "[ann, bob]" ann] ep(1) tk(1) ne v u n
    by blast
  have "auth_middleware demo_env {} [ann, bob] (demo_request\<lparr>req_arg_site_id := Some ''4''\<rparr>)
       = (if (4::int) \<in> set (1 # [4])
          then Inr (Authenticated ann \<lparr>ctx_id = 4, ctx_available_sites = 1 # [4]\<rparr>)
          else Inr (Abort 403))"
    using t4[of "demo_request\<lparr>req_arg_site_id := Some ''4''\<rparr>" "''good''" demo_env "{}" "[ann, bob]" ann]
      ep(2) tk(2) ne v u p(1) by simp
  then have c5: "auth_middleware demo_env {} [ann, bob] (demo_request\<lparr>req_arg_site_id := Some ''4''\<rparr>)
       = Inr (Authenticated ann \<lparr>ctx_id = 4, ctx_available_sites = 1 # [4]\<rparr>)"
    by simp
  have "auth_middleware demo_env {} [ann, bob] (demo_request\<lparr>req_arg_site_id := Some ''2''\<rparr>)
       = (if (2::int) \<in> set (1 # [4])
          then Inr (Authenticated ann \<lparr>ctx_id = 2, ctx_available_sites = 1 # [4]\<rparr>)
          else Inr (Abort 403))"
    using t2[of "demo_request\<lparr>req_arg_site_id := Some ''2''\<rparr>" "''good''" demo_env "{}" "[ann, bob]" ann]
      ep(3) tk(3) ne v u p(2) by simp
  then have c6: "auth_middleware demo_env {} [ann, bob] (demo_request\<lparr>req_arg_site_id := Some ''2''\<rparr>)
       = Inr (Abort 403)"
    by simp
  show ?thesis using s i4 i2 c1 c2 c3 ep(1) tk(1) v u n c4 p c5 c6 by blast
qed

subsection \<open>No session without a site\<close>

lemma get_site_ids_after_login:
  "get_site_ids (d\<lparr>users := us\<rparr>) (usr\<lparr>u_last_login := t\<rparr>) = get_site_ids d usr"
  by (simp add: get_site_ids_def)

lemma get_site_context_Some:
  "get_site_context p requested = Some ctx \<Longrightarrow>
     c_site_ids p = Some (ctx_available_sites ctx) \<and> ctx_available_sites ctx \<noteq> []
     \<and> ctx_id ctx \<in> set (ctx_available_sites ctx)"
  by (auto simp: get_site_context_def Let_def split: option.splits list.splits if_splits)

lemma auth_middleware_Authenticated:
  assumes "auth_middleware e TOKEN_BLACKLIST tbl rq = Inr (Authenticated usr ctx)"
  shows "\<exists>p requested. get_site_context p requested = Some ctx"
  using assms
  by (auto simp: auth_middleware_def bind_def split: if_splits option.splits sum.splits)

text \<open>
  C10, as stated, fails for a locked account: the lock is checked before the
  credentials, and Carl, whose password matches and who has no membership, is rejected
  with \<open>Unauthorized\<close> and not with \<open>Forbidden\<close>.
\<close>

theorem locked_login_without_sites_is_unauthorized:
  "find (\<lambda>u. u_username u = ''carl'') (users db2) = Some carl
   \<and> verify_password demo_env ''carl'' (u_password_hash carl)
   \<and> get_site_ids db2 carl = []
   \<and> login demo_env db2 [''account_locked:carl'' \<mapsto> (''1'', 900)] 100 ''hex'' ''carl'' ''carl''
       = (Inl Unauthorized, db2, [''account_locked:carl'' \<mapsto> (''1'', 900)])"
  by (simp add: login_def is_account_locked_def redis_get_def db2_def db1_def ann_def bob_def
        carl_def demo_env_def get_site_ids_def)

text \<open>
  C10, amended. For a user whose username is found, whose password verifies and who has
  no site membership, \<open>login\<close> returns no token: it raises \<open>Forbidden\<close> when the account
  is not locked and \<open>Unauthorized\<close> when it is. A token payload whose \<open>site_ids\<close> list
  is missing or empty yields no site context, and whenever \<open>auth_middleware\<close> publishes
  a user and a site context, the list of sites of that context is not empty and holds
  the id of the context.
\<close>

theorem login_without_sites_issues_no_token:
  assumes "find (\<lambda>u. u_username u = username) (users d) = Some usr"
      and "verify_password e password (u_password_hash usr)"
      and "get_site_ids d usr = []"
  shows "fst (login e d rd now token_hex username password)
           = Inl (if is_account_locked rd now username then Unauthorized else Forbidden)
       \<and> (c_site_ids p = None \<or> c_site_ids p = Some [] \<longrightarrow> get_site_context p requested = None)
       \<and> (\<forall>au ctx. auth_middleware e TOKEN_BLACKLIST tbl rq = Inr (Authenticated au ctx) \<longrightarrow>
             ctx_available_sites ctx \<noteq> [] \<and> ctx_id ctx \<in> set (ctx_available_sites ctx))"
proof -
  have l: "fst (login e d rd now token_hex username password)
           = Inl (if is_account_locked rd now username then Unauthorized else Forbidden)"
    using assms by (simp add: login_def Let_def get_site_ids_after_login)
  have g: "c_site_ids p = None \<or> c_site_ids p = Some [] \<longrightarrow> get_site_context p requested = None"
    by (auto simp: get_site_context_def)
  have m: "\<forall>au ctx. auth_middleware e TOKEN_BLACKLIST tbl rq = Inr (Authenticated au ctx) \<longrightarrow>
             ctx_available_sites ctx \<noteq> [] \<and> ctx_id ctx \<in> set (ctx_available_sites ctx)"
    using auth_middleware_Authenticated[of e TOKEN_BLACKLIST tbl rq] get_site_context_Some
    by blast
  from l g m show ?thesis by blast
qed

theorem login_without_sites_issues_no_token_witness:
  "find (\<lambda>u. u_username u = ''carl'') (users db2) = Some carl
   \<and> verify_password demo_env ''carl'' (u_password_hash carl)
   \<and> get_site_ids db2 carl = []
   \<and> is_account_locked Map.empty 100 ''carl'' = False
   \<and> fst (login demo_env db2 Map.empty 100 ''hex'' ''carl'' ''carl'') = Inl Forbidden
   \<and> c_site_ids (good_claims\<lparr>c_site_ids := Some []\<rparr>) = Some []
   \<and> get_site_context (good_claims\<lparr>c_site_ids := Some []\<rparr>) (Some 1) = None
   \<and> auth_middleware demo_env {} [ann, bob] demo_request
       = Inr (Authenticated ann \<lparr>ctx_id = 1, ctx_available_sites = [1, 4]\<rparr>)
   \<and> ctx_available_sites \<lparr>ctx_id = 1, ctx_available_sites = [1, 4]\<rparr> \<noteq> []"
proof -
  have f: "find (\<lambda>u. u_username u = ''carl'') (users db2) = Some carl"
    by (simp add: db2_def ann_def bob_def carl_def)
  have v: "verify_password demo_env ''carl'' (u_password_hash carl)"
    by (simp add: demo_env_def carl_def)
  have s: "get_site_ids db2 carl = []"
    by (simp add: get_site_ids_def db2_def db1_def carl_def)
  have k: "is_account_locked Map.empty 100 ''carl'' = False"
    by (simp add: is_account_locked_def redis_get_def)
  have e: "c_site_ids (good_claims\<lparr>c_site_ids := Some []\<rparr>) = Some []" by simp
  have a: "auth_middleware demo_env {} [ann, bob] demo_request
       = Inr (Authenticated ann \<lparr>ctx_id = 1, ctx_available_sites = [1, 4]\<rparr>)"
    by (simp add: auth_middleware_def bind_def demo_request_def PUBLIC_ROUTES_def
          get_token_from_request_def validate_auth_token_def decode_token_def demo_env_def
          demo_jwt_decode_def good_claims_def get_user_from_token_def ann_def
          get_site_context_def)
  note t = login_without_sites_issues_no_token[OF f v s,
      of Map.empty 100 "''hex''" "good_claims\<lparr>c_site_ids := Some []\<rparr>" "Some 1" "{}" "[ann, bob]"
         demo_request]
  from t k have c1: "fst (login demo_env db2 Map.empty 100 ''hex'' ''carl'' ''carl'') = Inl Forbidden"
    by simp
  from t e have c2: "get_site_context (good_claims\<lparr>c_site_ids := Some []\<rparr>) (Some 1) = None"
    by blast
  from t a have c3: "ctx_available_sites \<lparr>ctx_id = 1, ctx_available_sites = [1, 4]\<rparr> \<noteq> []"
    by blast
  show ?thesis using f v s k c1 e c2 a c3 by blast
qed

subsection \<open>Logout and the per-request authentication\<close>

text \<open>
  C3 does not hold of the code. \<open>logout\<close> completes and records the \<open>jti\<close> of the token in
  Redis, where \<open>is_token_blacklisted\<close> finds it; \<open>auth_middleware\<close> validates through
  \<open>validate_auth_token\<close>, which looks only at \<open>TOKEN_BLACKLIST\<close>, the process-local set
  that \<open>logout\<close> never writes; the same token is accepted again.
\<close>

theorem logged_out_token_is_still_accepted:
  "logout demo_env Map.empty 1000 ''good''
     = (Inr True, [''token:blacklist:jti-1'' \<mapsto> (''1'', 5000)])
   \<and> is_token_blacklisted [''token:blacklist:jti-1'' \<mapsto> (''1'', 5000)] 1001 ''jti-1''
   \<and> auth_middleware demo_env {} [ann, bob] demo_request
       = Inr (Authenticated ann \<lparr>ctx_id = 1, ctx_available_sites = [1, 4]\<rparr>)"
  by (simp add: logout_def decode_token_def demo_env_def demo_jwt_decode_def good_claims_def
        redis_set_def TOKEN_BLACKLIST_PREFIX_def is_token_blacklisted_def redis_get_def
        auth_middleware_def bind_def demo_request_def PUBLIC_ROUTES_def
        get_token_from_request_def validate_auth_token_def get_user_from_token_def ann_def
        get_site_context_def)

end
